theory Spec2Isabelle
  imports Complex_Main
begin

section \<open>The thoughts store (src/stores/thoughtsStore.js)\<close>

text \<open>
  The store is a state container: every action reads the state with \<open>get()\<close> and
  writes it with \<open>set(...)\<close>, which merges the given fields into the state. An
  asynchronous action runs synchronously up to its \<open>await\<close>, is suspended while the
  request is in flight, and resumes with the response. Each such action is therefore
  modelled by two functions on the state, \<open>_begin\<close> (up to the request) and
  \<open>_resume\<close> (from the response on), and by their composition for a call that runs
  with no other action in between. The response and its parsed body are given to the
  continuation together. The imported helpers and the caller's callback are taken to
  return normally.
\<close>

subsection \<open>Data\<close>

text \<open>A JavaScript identifier value: a string, or \<open>undefined\<close> (\<open>None\<close>).\<close>

type_synonym js_id = "string option"

text \<open>A thrown \<open>Error\<close>, represented by its \<open>message\<close>.\<close>

type_synonym js_error = string

text \<open>The fields of a thought that the list component reads (field \<open>_id\<close> is \<open>thought_id\<close>).\<close>

record thought =
  thought_id :: js_id
  message :: string
  createdAt :: string
  hearts :: int
  likesCount :: int
  owner :: string
  isLikedByUser :: bool
  isOptimistic :: bool

text \<open>
  A parsed JSON object of a response body: a server record or an error payload. The
  store reads \<open>_id\<close> and \<open>message\<close> of it; both may be missing.
\<close>

record payload =
  p_id :: js_id
  p_message :: "string option"
  p_createdAt :: string
  p_hearts :: int
  p_likesCount :: int
  p_owner :: string
  p_isLikedByUser :: bool
  p_error :: "string option"

record pagination =
  pg_currentPage :: "nat option"
  pg_totalPages :: "nat option"
  pg_hasNextPage :: "bool option"

text \<open>
  The body of a feed page: a bare array of records, or an object with the optional
  members \<open>thoughts\<close>, \<open>pagination\<close> and \<open>total\<close>.
\<close>

datatype fetch_data =
  BareArray "payload list"
  | Envelope "payload list option" "pagination option" "nat option"

text \<open>\<open>response.json()\<close>: rejects with an error, or yields the parsed body.\<close>

datatype 'd body = Unparsable js_error | Parsed 'd

text \<open>
  What awaiting the request function gives: the promise rejects with an error (transport
  failure, or \<open>authenticatedFetch\<close> raising \<open>Authentication required\<close>), or it
  yields a response with its \<open>ok\<close> flag and its body.
\<close>

datatype 'd response = Rejects js_error | Responds bool "'d body"

datatype fetchFunction = fetch | authenticatedFetch

datatype http_method = GET | POST | PUT | DELETE

record request =
  req_function :: fetchFunction
  req_endpoint :: string
  req_method :: http_method
  req_message :: "string option"

text \<open>How a call of an action ends for its caller.\<close>

datatype 'a outcome = Returns 'a | Throws js_error

text \<open>The result object of \<open>updateThought\<close> and \<open>deleteThought\<close>.\<close>

record result =
  success :: bool
  res_error :: "string option"
  res_thought :: "thought option"

text \<open>
  The synchronous part of an action either finishes the call (\<open>Done\<close>) or issues a
  request and suspends, keeping the local variables the continuation uses
  (\<open>Awaits\<close>).
\<close>

datatype ('r, 'k) started = Done 'r | Awaits request 'k

record feed_state =
  thoughts :: "thought list"
  loading :: bool
  error :: string
  currentPage :: nat
  totalPages :: nat
  totalThoughts :: nat
  hasMore :: bool
  viewMode :: string
  thoughtFilter :: string

text \<open>
  The imports of the store whose modules are not part of the sources at hand
  (\<open>config/api\<close>, \<open>utils/thoughtUtils\<close>): the store is modelled over any
  implementation of them.
\<close>

record imported =
  API_URL :: string
  processThought :: "payload \<Rightarrow> thought"
  createOptimisticThought :: "string \<Rightarrow> thought"
  createOptimisticLikeUpdate :: "thought \<Rightarrow> thought"
  reinsertThought :: "thought list \<Rightarrow> thought \<Rightarrow> thought list"
  handleApiError :: "js_error \<Rightarrow> string \<Rightarrow> string \<Rightarrow> string"
  extractErrorMessage :: "payload \<Rightarrow> string \<Rightarrow> string"
  createOptimisticUpdater :: "js_id \<Rightarrow> (thought \<Rightarrow> thought) \<Rightarrow> thought list \<Rightarrow> thought list"
  createRemoveUpdater :: "js_id \<Rightarrow> thought list \<Rightarrow> thought list"
  createReplaceUpdater :: "js_id \<Rightarrow> thought \<Rightarrow> thought list \<Rightarrow> thought list"

subsection \<open>JavaScript primitives\<close>

definition PAGE_SIZE :: nat where
  "PAGE_SIZE = 10"

text \<open>A number in a template literal: its decimal digits.\<close>

fun toString :: "nat \<Rightarrow> string" where
  "toString n =
     (if n < 10 then [char_of (48 + n)]
      else toString (n div 10) @ [char_of (48 + n mod 10)])"

declare toString.simps [simp del]

text \<open>Truthiness of an optional string, an optional number and an optional array.\<close>

definition truthy_string :: "string option \<Rightarrow> bool" where
  "truthy_string v = (case v of None \<Rightarrow> False | Some s \<Rightarrow> s \<noteq> [])"

definition or_number :: "nat option \<Rightarrow> nat \<Rightarrow> nat" where
  "or_number v d = (case v of None \<Rightarrow> d | Some n \<Rightarrow> if n = 0 then d else n)"

text \<open>
  Numbers are IEEE 754 doubles. The counts of the store (the length of an array, the
  \<open>total\<close> of a body, a page number) are natural numbers, and a natural number stands
  for the double of that value: every natural number below \<open>2 ^ 53\<close> is one, and above
  it those with at most 53 significant bits. The one operation of the store that leaves
  the natural numbers is the division in \<open>Math.ceil(total / PAGE_SIZE)\<close>; it is
  modelled as the double division, which rounds the quotient to 53 significant bits, to
  the nearest, ties to even. A non-negative double is written as a pair \<open>(m, k)\<close> for
  the value \<open>m * 2 ^ k\<close>.
\<close>

type_synonym double = "nat \<times> int"

text \<open>The number of bits of a natural number.\<close>

fun bit_length :: "nat \<Rightarrow> nat" where
  "bit_length n = (if n = 0 then 0 else Suc (bit_length (n div 2)))"

declare bit_length.simps [simp del]

text \<open>The fraction \<open>a / b\<close> rounded to the nearest natural number, ties to even.\<close>

definition round_half_even :: "nat \<Rightarrow> nat \<Rightarrow> nat" where
  "round_half_even a b =
     (let q = a div b; r = a mod b
      in if 2 * r < b then q
         else if b < 2 * r then q + 1
         else if even q then q else q + 1)"

text \<open>
  The binary exponent \<open>e\<close> of a positive quotient:
  \<open>2 ^ e \<le> n / d < 2 ^ (e + 1)\<close>.
\<close>

definition exponent :: "nat \<Rightarrow> nat \<Rightarrow> int" where
  "exponent n d =
     (let bn = bit_length n; bd = bit_length d
      in if bd \<le> bn
         then (if d * 2 ^ (bn - bd) \<le> n then int (bn - bd) else int (bn - bd) - 1)
         else (if d \<le> n * 2 ^ (bd - bn) then - int (bd - bn) else - int (bd - bn) - 1))"

text \<open>
  \<open>n / d\<close> for doubles \<open>n\<close> and \<open>d > 0\<close> that are natural numbers: the quotient
  with exponent \<open>e\<close> is rounded to a multiple of \<open>2 ^ (e - 52)\<close>.
\<close>

definition double_div :: "nat \<Rightarrow> nat \<Rightarrow> double" where
  "double_div n d =
     (if n = 0 then (0, 0)
      else
        (let e = exponent n d
         in if e \<le> 52 then (round_half_even (n * 2 ^ nat (52 - e)) d, e - 52)
            else (round_half_even n (d * 2 ^ nat (e - 52)), e - 52)))"

text \<open>\<open>Math.ceil\<close> of a non-negative double: exact, a natural number.\<close>

definition Math_ceil :: "double \<Rightarrow> nat" where
  "Math_ceil x =
     (case x of (m, k) \<Rightarrow>
        if 0 \<le> k then m * 2 ^ nat k
        else (m + 2 ^ nat (- k) - 1) div 2 ^ nat (- k))"

text \<open>The initial state of the store.\<close>

definition initial_state :: feed_state where
  "initial_state =
     \<lparr>thoughts = [], loading = False, error = [], currentPage = 1, totalPages = 1,
      totalThoughts = 0, hasMore = True, viewMode = ''pagination'',
      thoughtFilter = ''all''\<rparr>"

subsection \<open>fetchThoughts\<close>

definition fetchThoughts_request :: "imported \<Rightarrow> nat \<Rightarrow> feed_state \<Rightarrow> request" where
  "fetchThoughts_request I page st =
     (let endpoint =
            (if thoughtFilter st = ''my''
             then API_URL I @ ''/users/me/thoughts?page='' @ toString page
                    @ ''&limit='' @ toString PAGE_SIZE
             else API_URL I @ ''/thoughts?page='' @ toString page
                    @ ''&limit='' @ toString PAGE_SIZE);
          fetchFunction = (if thoughtFilter st = ''my'' then authenticatedFetch else fetch)
      in \<lparr>req_function = fetchFunction, req_endpoint = endpoint, req_method = GET,
          req_message = None\<rparr>)"

text \<open>Up to \<open>await fetchFunction(endpoint)\<close>.\<close>

definition fetchThoughts_begin :: "imported \<Rightarrow> nat \<Rightarrow> feed_state \<Rightarrow> feed_state \<times> request" where
  "fetchThoughts_begin I page st0 =
     (let st = st0\<lparr>loading := True, error := []\<rparr>
      in (st, fetchThoughts_request I page st))"

text \<open>
  \<open>data.thoughts || data\<close>, which is then mapped: an array is truthy even when empty,
  and a value that is no array has no \<open>map\<close>, so the call raises a TypeError.
\<close>

definition thoughtsArray_of :: "fetch_data \<Rightarrow> js_error + payload list" where
  "thoughtsArray_of data =
     (case data of
        BareArray rs \<Rightarrow> Inr rs
      | Envelope ts pg tot \<Rightarrow>
          (case ts of
             Some rs \<Rightarrow> Inr rs
           | None \<Rightarrow> Inl ''thoughtsArray.map is not a function''))"

text \<open>\<open>data.pagination || {}\<close>.\<close>

definition data_pagination :: "fetch_data \<Rightarrow> pagination" where
  "data_pagination data =
     (case data of
        BareArray rs \<Rightarrow>
          \<lparr>pg_currentPage = None, pg_totalPages = None, pg_hasNextPage = None\<rparr>
      | Envelope ts pg tot \<Rightarrow>
          (case pg of
             Some p \<Rightarrow> p
           | None \<Rightarrow>
               \<lparr>pg_currentPage = None, pg_totalPages = None, pg_hasNextPage = None\<rparr>))"

text \<open>\<open>data.total\<close>.\<close>

definition data_total :: "fetch_data \<Rightarrow> nat option" where
  "data_total data = (case data of BareArray rs \<Rightarrow> None | Envelope ts pg tot \<Rightarrow> tot)"

text \<open>The body of the \<open>try\<close> block from the response on: \<open>Inl\<close> is a thrown error.\<close>

definition fetchThoughts_try ::
  "imported \<Rightarrow> nat \<Rightarrow> bool \<Rightarrow> fetch_data response \<Rightarrow> feed_state \<Rightarrow> js_error + feed_state" where
  "fetchThoughts_try I page append' resp st =
     (case resp of
        Rejects e \<Rightarrow> Inl e
      | Responds ok b \<Rightarrow>
          if \<not> ok then Inl ''Failed to fetch thoughts''
          else
            (case b of
               Unparsable e \<Rightarrow> Inl e
             | Parsed data \<Rightarrow>
                 (case thoughtsArray_of data of
                    Inl e \<Rightarrow> Inl e
                  | Inr thoughtsArray \<Rightarrow>
                      (let processedThoughts = map (processThought I) thoughtsArray;
                           pagination = data_pagination data;
                           total' = or_number (data_total data) (length thoughtsArray);
                           currentPage' = or_number (pg_currentPage pagination) page;
                           totalPages' = or_number (pg_totalPages pagination)
                                           (Math_ceil (double_div total' PAGE_SIZE));
                           hasMore' =
                             (case pg_hasNextPage pagination of
                                Some h \<Rightarrow> h
                              | None \<Rightarrow> length processedThoughts = PAGE_SIZE)
                       in Inr (st\<lparr>thoughts :=
                                     (if append' then thoughts st @ processedThoughts
                                      else processedThoughts),
                                   currentPage := currentPage',
                                   totalPages := totalPages',
                                   totalThoughts := total',
                                   hasMore := hasMore'\<rparr>)))))"

text \<open>From the response on: the \<open>try\<close> block, its \<open>catch\<close> and its \<open>finally\<close>.\<close>

definition fetchThoughts_resume ::
  "imported \<Rightarrow> nat \<Rightarrow> bool \<Rightarrow> fetch_data response \<Rightarrow> feed_state \<Rightarrow> feed_state \<times> unit outcome" where
  "fetchThoughts_resume I page append' resp st =
     (let st1 =
            (case fetchThoughts_try I page append' resp st of
               Inr st' \<Rightarrow> st'
             | Inl e \<Rightarrow>
                 st\<lparr>error := ''Could not load happy thoughts. Please try again later.''\<rparr>)
      in (st1\<lparr>loading := False\<rparr>, Returns ()))"

text \<open>A whole call, no other action running in between.\<close>

definition fetchThoughts ::
  "imported \<Rightarrow> nat \<Rightarrow> bool \<Rightarrow> fetch_data response \<Rightarrow> feed_state \<Rightarrow> feed_state \<times> unit outcome" where
  "fetchThoughts I page append' resp st0 =
     fetchThoughts_resume I page append' resp (fst (fetchThoughts_begin I page st0))"

subsection \<open>addThought\<close>

text \<open>
  The caller's \<open>onError\<close> callback is a function of the message acting on the caller's
  own state \<open>'w\<close>, or is missing (\<open>None\<close>).
\<close>

definition addThought_begin ::
  "imported \<Rightarrow> string \<Rightarrow> feed_state \<Rightarrow> feed_state \<times> request \<times> thought" where
  "addThought_begin I msg st0 =
     (let st1 = st0\<lparr>error := [], loading := True\<rparr>;
          optimisticThought = createOptimisticThought I msg;
          st2 = st1\<lparr>thoughts := optimisticThought # thoughts st1\<rparr>
      in (st2,
          \<lparr>req_function = authenticatedFetch, req_endpoint = API_URL I @ ''/thoughts'',
           req_method = POST, req_message = Some msg\<rparr>,
          optimisticThought))"

definition addThought_catch ::
  "imported \<Rightarrow> thought \<Rightarrow> (string \<Rightarrow> 'w \<Rightarrow> 'w) option \<Rightarrow> js_error
     \<Rightarrow> feed_state \<times> 'w \<Rightarrow> feed_state \<times> 'w" where
  "addThought_catch I optimisticThought onError e sw =
     (let st1 = (fst sw)\<lparr>thoughts :=
                   createRemoveUpdater I (thought_id optimisticThought) (thoughts (fst sw))\<rparr>;
          errorMessage = handleApiError I e
                           ''Could not post your thought. Please try again.''
                           ''Please log in to post a thought''
      in (case onError of
            Some callback \<Rightarrow>
              if e = ''Authentication required'' then (st1, callback errorMessage (snd sw))
              else (st1\<lparr>error := errorMessage\<rparr>, snd sw)
          | None \<Rightarrow> (st1\<lparr>error := errorMessage\<rparr>, snd sw)))"

definition addThought_try ::
  "imported \<Rightarrow> thought \<Rightarrow> (string \<Rightarrow> 'w \<Rightarrow> 'w) option \<Rightarrow> payload response
     \<Rightarrow> feed_state \<times> 'w \<Rightarrow> js_error + feed_state \<times> 'w" where
  "addThought_try I optimisticThought onError resp sw =
     (case resp of
        Rejects e \<Rightarrow> Inl e
      | Responds ok b \<Rightarrow>
          (case b of
             Unparsable e \<Rightarrow> Inl e
           | Parsed data \<Rightarrow>
               if ok \<and> truthy_string (p_message data) \<and> truthy_string (p_id data) then
                 (let processedThought = processThought I data
                  in Inr ((fst sw)\<lparr>thoughts :=
                             createReplaceUpdater I (thought_id optimisticThought)
                               processedThought (thoughts (fst sw))\<rparr>,
                          snd sw))
               else
                 (let st1 = (fst sw)\<lparr>thoughts :=
                              createRemoveUpdater I (thought_id optimisticThought)
                                (thoughts (fst sw))\<rparr>;
                      errorMessage = extractErrorMessage I data ''Invalid input''
                  in Inr (st1,
                          (case onError of
                             Some callback \<Rightarrow> callback errorMessage (snd sw)
                           | None \<Rightarrow> snd sw)))))"

definition addThought_resume ::
  "imported \<Rightarrow> thought \<Rightarrow> (string \<Rightarrow> 'w \<Rightarrow> 'w) option \<Rightarrow> payload response
     \<Rightarrow> feed_state \<times> 'w \<Rightarrow> (feed_state \<times> 'w) \<times> unit outcome" where
  "addThought_resume I optimisticThought onError resp sw =
     (let sw1 =
            (case addThought_try I optimisticThought onError resp sw of
               Inr sw' \<Rightarrow> sw'
             | Inl e \<Rightarrow> addThought_catch I optimisticThought onError e sw)
      in (((fst sw1)\<lparr>loading := False\<rparr>, snd sw1), Returns ()))"

definition addThought ::
  "imported \<Rightarrow> string \<Rightarrow> (string \<Rightarrow> 'w \<Rightarrow> 'w) option \<Rightarrow> payload response
     \<Rightarrow> feed_state \<times> 'w \<Rightarrow> (feed_state \<times> 'w) \<times> unit outcome" where
  "addThought I msg onError resp sw =
     (case addThought_begin I msg (fst sw) of
        (st, req, optimisticThought) \<Rightarrow>
          addThought_resume I optimisticThought onError resp (st, snd sw))"

subsection \<open>handleLike\<close>

text \<open>An identifier in a template literal.\<close>

definition id_text :: "js_id \<Rightarrow> string" where
  "id_text i = (case i of None \<Rightarrow> ''undefined'' | Some s \<Rightarrow> s)"

definition handleLike_begin ::
  "imported \<Rightarrow> js_id \<Rightarrow> feed_state \<Rightarrow> feed_state \<times> (js_id outcome, thought) started" where
  "handleLike_begin I thoughtId st =
     (case find (\<lambda>t. thought_id t = thoughtId) (thoughts st) of
        None \<Rightarrow> (st, Done (Returns None))
      | Some currentThought \<Rightarrow>
          (let optimisticUpdate = createOptimisticLikeUpdate I currentThought;
               st1 = st\<lparr>thoughts :=
                        createOptimisticUpdater I thoughtId (\<lambda>_. optimisticUpdate)
                          (thoughts st)\<rparr>
           in (st1,
               Awaits \<lparr>req_function = authenticatedFetch,
                       req_endpoint = API_URL I @ ''/thoughts/'' @ id_text thoughtId @ ''/like'',
                       req_method = POST, req_message = None\<rparr>
                 currentThought)))"

definition handleLike_try ::
  "imported \<Rightarrow> payload response \<Rightarrow> feed_state \<Rightarrow> js_error + feed_state \<times> js_id" where
  "handleLike_try I resp st =
     (case resp of
        Rejects e \<Rightarrow> Inl e
      | Responds ok b \<Rightarrow>
          if ok then
            (case b of
               Unparsable e \<Rightarrow> Inl e
             | Parsed updatedThought \<Rightarrow>
                 (let processedThought = processThought I updatedThought
                  in Inr (st\<lparr>thoughts :=
                               createReplaceUpdater I (p_id updatedThought) processedThought
                                 (thoughts st)\<rparr>,
                          p_id updatedThought)))
          else Inl ''Failed to update like status'')"

definition handleLike_resume ::
  "imported \<Rightarrow> js_id \<Rightarrow> thought \<Rightarrow> payload response \<Rightarrow> feed_state
     \<Rightarrow> feed_state \<times> js_id outcome" where
  "handleLike_resume I thoughtId currentThought resp st =
     (case handleLike_try I resp st of
        Inr (st', updatedId) \<Rightarrow> (st', Returns updatedId)
      | Inl e \<Rightarrow>
          (let st1 = st\<lparr>thoughts :=
                        createOptimisticUpdater I thoughtId (\<lambda>_. currentThought)
                          (thoughts st)\<rparr>;
               errorMessage = handleApiError I e
                                ''Could not like the thought. Please try again.''
                                ''Please log in to like thoughts.''
           in (st1\<lparr>error := errorMessage\<rparr>, Throws e)))"

definition handleLike ::
  "imported \<Rightarrow> js_id \<Rightarrow> payload response \<Rightarrow> feed_state \<Rightarrow> feed_state \<times> js_id outcome" where
  "handleLike I thoughtId resp st =
     (case handleLike_begin I thoughtId st of
        (st1, Done r) \<Rightarrow> (st1, r)
      | (st1, Awaits req currentThought) \<Rightarrow>
          handleLike_resume I thoughtId currentThought resp st1)"

subsection \<open>updateThought\<close>

definition updateThought_begin ::
  "imported \<Rightarrow> js_id \<Rightarrow> string \<Rightarrow> feed_state
     \<Rightarrow> feed_state \<times> (result outcome, thought) started" where
  "updateThought_begin I thoughtId msg st =
     (case find (\<lambda>t. thought_id t = thoughtId) (thoughts st) of
        None \<Rightarrow>
          (st, Done (Returns \<lparr>success = False, res_error = Some ''Thought not found'',
                              res_thought = None\<rparr>))
      | Some currentThought \<Rightarrow>
          (let optimisticUpdate = currentThought\<lparr>message := msg, isOptimistic := True\<rparr>;
               st1 = st\<lparr>thoughts :=
                        createOptimisticUpdater I thoughtId (\<lambda>_. optimisticUpdate)
                          (thoughts st)\<rparr>
           in (st1,
               Awaits \<lparr>req_function = authenticatedFetch,
                       req_endpoint = API_URL I @ ''/thoughts/'' @ id_text thoughtId,
                       req_method = PUT, req_message = Some msg\<rparr>
                 currentThought)))"

text \<open>
  The \<open>try\<close> block from the response on. It may have written the state before an
  error is thrown, so the state is returned beside the thrown error or the result.
\<close>

definition updateThought_try ::
  "imported \<Rightarrow> js_id \<Rightarrow> thought \<Rightarrow> payload response \<Rightarrow> feed_state
     \<Rightarrow> feed_state \<times> (js_error + result)" where
  "updateThought_try I thoughtId currentThought resp st =
     (case resp of
        Rejects e \<Rightarrow> (st, Inl e)
      | Responds ok b \<Rightarrow>
          if ok then
            (case b of
               Unparsable e \<Rightarrow> (st, Inl e)
             | Parsed updatedThought \<Rightarrow>
                 (let processedThought = processThought I updatedThought
                  in (st\<lparr>thoughts :=
                           createReplaceUpdater I (p_id updatedThought) processedThought
                             (thoughts st)\<rparr>,
                      Inr \<lparr>success = True, res_error = None,
                           res_thought = Some processedThought\<rparr>)))
          else
            (let st1 = st\<lparr>thoughts :=
                         createOptimisticUpdater I thoughtId (\<lambda>_. currentThought)
                           (thoughts st)\<rparr>
             in (case b of
                   Unparsable e \<Rightarrow> (st1, Inl e)
                 | Parsed errorData \<Rightarrow>
                     (let errorMessage =
                            extractErrorMessage I errorData ''Failed to update thought''
                      in (st1, Inr \<lparr>success = False, res_error = Some errorMessage,
                                    res_thought = None\<rparr>)))))"

definition updateThought_resume ::
  "imported \<Rightarrow> js_id \<Rightarrow> thought \<Rightarrow> payload response \<Rightarrow> feed_state
     \<Rightarrow> feed_state \<times> result outcome" where
  "updateThought_resume I thoughtId currentThought resp st =
     (case updateThought_try I thoughtId currentThought resp st of
        (st1, Inr r) \<Rightarrow> (st1, Returns r)
      | (st1, Inl e) \<Rightarrow>
          (let st2 = st1\<lparr>thoughts :=
                         createOptimisticUpdater I thoughtId (\<lambda>_. currentThought)
                           (thoughts st1)\<rparr>;
               errorMessage = handleApiError I e
                                ''Could not update the thought. Please try again.''
                                ''Please log in to edit thoughts.''
           in (st2, Returns \<lparr>success = False, res_error = Some errorMessage,
                             res_thought = None\<rparr>)))"

definition updateThought ::
  "imported \<Rightarrow> js_id \<Rightarrow> string \<Rightarrow> payload response \<Rightarrow> feed_state
     \<Rightarrow> feed_state \<times> result outcome" where
  "updateThought I thoughtId msg resp st =
     (case updateThought_begin I thoughtId msg st of
        (st1, Done r) \<Rightarrow> (st1, r)
      | (st1, Awaits req currentThought) \<Rightarrow>
          updateThought_resume I thoughtId currentThought resp st1)"

subsection \<open>deleteThought\<close>

definition deleteThought_begin ::
  "imported \<Rightarrow> js_id \<Rightarrow> feed_state \<Rightarrow> feed_state \<times> (result outcome, thought) started" where
  "deleteThought_begin I thoughtId st =
     (case find (\<lambda>t. thought_id t = thoughtId) (thoughts st) of
        None \<Rightarrow>
          (st, Done (Returns \<lparr>success = False, res_error = Some ''Thought not found'',
                              res_thought = None\<rparr>))
      | Some thoughtToDelete \<Rightarrow>
          (let st1 = st\<lparr>thoughts := createRemoveUpdater I thoughtId (thoughts st)\<rparr>
           in (st1,
               Awaits \<lparr>req_function = authenticatedFetch,
                       req_endpoint = API_URL I @ ''/thoughts/'' @ id_text thoughtId,
                       req_method = DELETE, req_message = None\<rparr>
                 thoughtToDelete)))"

definition deleteThought_try ::
  "imported \<Rightarrow> thought \<Rightarrow> payload response \<Rightarrow> feed_state
     \<Rightarrow> feed_state \<times> (js_error + result)" where
  "deleteThought_try I thoughtToDelete resp st =
     (case resp of
        Rejects e \<Rightarrow> (st, Inl e)
      | Responds ok b \<Rightarrow>
          if ok then (st, Inr \<lparr>success = True, res_error = None, res_thought = None\<rparr>)
          else
            (let st1 = st\<lparr>thoughts := reinsertThought I (thoughts st) thoughtToDelete\<rparr>
             in (case b of
                   Unparsable e \<Rightarrow> (st1, Inl e)
                 | Parsed errorData \<Rightarrow>
                     (let errorMessage =
                            extractErrorMessage I errorData ''Failed to delete thought''
                      in (st1, Inr \<lparr>success = False, res_error = Some errorMessage,
                                    res_thought = None\<rparr>)))))"

definition deleteThought_resume ::
  "imported \<Rightarrow> thought \<Rightarrow> payload response \<Rightarrow> feed_state \<Rightarrow> feed_state \<times> result outcome" where
  "deleteThought_resume I thoughtToDelete resp st =
     (case deleteThought_try I thoughtToDelete resp st of
        (st1, Inr r) \<Rightarrow> (st1, Returns r)
      | (st1, Inl e) \<Rightarrow>
          (let st2 = st1\<lparr>thoughts := reinsertThought I (thoughts st1) thoughtToDelete\<rparr>;
               errorMessage = handleApiError I e
                                ''Could not delete the thought. Please try again.''
                                ''Please log in to delete thoughts.''
           in (st2, Returns \<lparr>success = False, res_error = Some errorMessage,
                             res_thought = None\<rparr>)))"

definition deleteThought ::
  "imported \<Rightarrow> js_id \<Rightarrow> payload response \<Rightarrow> feed_state \<Rightarrow> feed_state \<times> result outcome" where
  "deleteThought I thoughtId resp st =
     (case deleteThought_begin I thoughtId st of
        (st1, Done r) \<Rightarrow> (st1, r)
      | (st1, Awaits req thoughtToDelete) \<Rightarrow>
          deleteThought_resume I thoughtToDelete resp st1)"

subsection \<open>The synchronous actions\<close>

text \<open>
  They call \<open>fetchThoughts\<close> without awaiting it: the call runs up to its request and
  the action goes on. The request issued, if any, is returned beside the state.
\<close>

definition changePage :: "imported \<Rightarrow> nat \<Rightarrow> feed_state \<Rightarrow> feed_state \<times> request option" where
  "changePage I page st =
     (if page \<noteq> currentPage st
      then (case fetchThoughts_begin I page st of (st1, req) \<Rightarrow> (st1, Some req))
      else (st, None))"

definition loadMore :: "imported \<Rightarrow> feed_state \<Rightarrow> feed_state \<times> request option" where
  "loadMore I st =
     (if \<not> loading st \<and> hasMore st
      then (case fetchThoughts_begin I (currentPage st + 1) st of (st1, req) \<Rightarrow> (st1, Some req))
      else (st, None))"

definition setViewMode :: "imported \<Rightarrow> string \<Rightarrow> feed_state \<Rightarrow> feed_state \<times> request option" where
  "setViewMode I mode st =
     (case (if mode = ''infinite''
            then (case fetchThoughts_begin I 1 (st\<lparr>currentPage := 1, thoughts := []\<rparr>) of
                    (st1, req) \<Rightarrow> (st1, Some req))
            else (st, None)) of
        (st2, req) \<Rightarrow> (st2\<lparr>viewMode := mode\<rparr>, req))"

definition setThoughtFilter :: "imported \<Rightarrow> string \<Rightarrow> feed_state \<Rightarrow> feed_state \<times> request" where
  "setThoughtFilter I filter' st =
     fetchThoughts_begin I 1 (st\<lparr>thoughtFilter := filter', currentPage := 1, thoughts := []\<rparr>)"

subsection \<open>The helpers of utils/thoughtUtils, from the specification\<close>

text \<open>
  Modelled from the spec: \<open>processThought\<close> (the spec's \<open>normalize\<close>) is missing from the
  sources. It turns a raw record into a display-ready thought: the record's fields, with
  \<open>isOptimistic\<close> unset.
\<close>

definition processThought_spec :: "payload \<Rightarrow> thought" where
  "processThought_spec r =
     \<lparr>thought_id = p_id r,
      message = (case p_message r of None \<Rightarrow> [] | Some m \<Rightarrow> m),
      createdAt = p_createdAt r, hearts = p_hearts r, likesCount = p_likesCount r,
      owner = p_owner r, isLikedByUser = p_isLikedByUser r, isOptimistic = False\<rparr>"

text \<open>
  Modelled from the spec: \<open>createOptimisticThought\<close> (the spec's \<open>buildOptimistic\<close>) is
  missing from the sources. It builds the placeholder of a new thought: the message, a
  client-generated temporary id \<open>tmp\<close>, the client's time \<open>now\<close>, and
  \<open>isOptimistic\<close> set.
\<close>

definition createOptimisticThought_spec :: "string \<Rightarrow> string \<Rightarrow> string \<Rightarrow> thought" where
  "createOptimisticThought_spec tmp now msg =
     \<lparr>thought_id = Some tmp, message = msg, createdAt = now, hearts = 0, likesCount = 0,
      owner = [], isLikedByUser = False, isOptimistic = True\<rparr>"

text \<open>
  Modelled from the spec: \<open>createOptimisticLikeUpdate\<close> (the spec's
  \<open>buildOptimisticLike\<close>) is missing from the sources. It flips the like flag and
  adjusts the like count.
\<close>

definition createOptimisticLikeUpdate_spec :: "thought \<Rightarrow> thought" where
  "createOptimisticLikeUpdate_spec t =
     t\<lparr>isLikedByUser := \<not> isLikedByUser t,
       likesCount := (if isLikedByUser t then likesCount t - 1 else likesCount t + 1)\<rparr>"

text \<open>
  Modelled from the spec: \<open>handleApiError\<close> (the spec's \<open>classifyError\<close>) is missing from
  the sources. An authentication failure, which the authenticated request function
  raises as \<open>Authentication required\<close>, maps to the authentication fallback, any other
  error to the generic one.
\<close>

definition handleApiError_spec :: "js_error \<Rightarrow> string \<Rightarrow> string \<Rightarrow> string" where
  "handleApiError_spec e genericFallback authFallback =
     (if e = ''Authentication required'' then authFallback else genericFallback)"

text \<open>
  Modelled from the spec: \<open>extractErrorMessage\<close> is missing from the sources. It takes
  the human-readable message of an error payload, or the fallback when there is none.
\<close>

definition extractErrorMessage_spec :: "payload \<Rightarrow> string \<Rightarrow> string" where
  "extractErrorMessage_spec data fallback =
     (case p_error data of
        None \<Rightarrow> fallback
      | Some m \<Rightarrow> if m \<noteq> [] then m else fallback)"

text \<open>
  Modelled from the spec: \<open>createOptimisticUpdater\<close> is missing from the sources. It
  applies an update in place to the entry with the given id.
\<close>

definition createOptimisticUpdater_spec ::
  "js_id \<Rightarrow> (thought \<Rightarrow> thought) \<Rightarrow> thought list \<Rightarrow> thought list" where
  "createOptimisticUpdater_spec thoughtId updater ts =
     map (\<lambda>t. if thought_id t = thoughtId then updater t else t) ts"

text \<open>
  Modelled from the spec: \<open>createRemoveUpdater\<close> (the spec's \<open>removeById\<close>) is missing
  from the sources. It removes the entry with the given id.
\<close>

definition createRemoveUpdater_spec :: "js_id \<Rightarrow> thought list \<Rightarrow> thought list" where
  "createRemoveUpdater_spec thoughtId ts = filter (\<lambda>t. thought_id t \<noteq> thoughtId) ts"

text \<open>
  Modelled from the spec: \<open>createReplaceUpdater\<close> (the spec's \<open>replaceById\<close>) is missing
  from the sources. It replaces the entry with the given id by the given thought.
\<close>

definition createReplaceUpdater_spec :: "js_id \<Rightarrow> thought \<Rightarrow> thought list \<Rightarrow> thought list" where
  "createReplaceUpdater_spec thoughtId newThought ts =
     map (\<lambda>t. if thought_id t = thoughtId then newThought else t) ts"

text \<open>
  Modelled from the spec: the module \<open>utils/thoughtUtils\<close> as the specification describes
  it. The server address, the temporary id and the client's time are given. The position
  at which \<open>reinsertThought\<close> puts an entry back is not determined by its two arguments,
  so that helper stays a parameter.
\<close>

definition spec_imported ::
  "string \<Rightarrow> string \<Rightarrow> string \<Rightarrow> (thought list \<Rightarrow> thought \<Rightarrow> thought list) \<Rightarrow> imported" where
  "spec_imported api tmp now reinsert =
     \<lparr>API_URL = api,
      processThought = processThought_spec,
      createOptimisticThought = createOptimisticThought_spec tmp now,
      createOptimisticLikeUpdate = createOptimisticLikeUpdate_spec,
      reinsertThought = reinsert,
      handleApiError = handleApiError_spec,
      extractErrorMessage = extractErrorMessage_spec,
      createOptimisticUpdater = createOptimisticUpdater_spec,
      createRemoveUpdater = createRemoveUpdater_spec,
      createReplaceUpdater = createReplaceUpdater_spec\<rparr>"

text \<open>An instance of it, and a record and a thought, for evaluating the store.\<close>

definition example_imported :: imported where
  "example_imported =
     spec_imported ''http://localhost:8080'' ''temp-1'' ''2025-01-01T00:00:00Z''
       (\<lambda>ts t. t # ts)"

definition example_record :: "string \<Rightarrow> payload" where
  "example_record i =
     \<lparr>p_id = Some i, p_message = Some ''hello'', p_createdAt = ''2024-12-31T00:00:00Z'',
      p_hearts = 3, p_likesCount = 3, p_owner = ''u1'', p_isLikedByUser = False,
      p_error = None\<rparr>"

definition example_thought :: "string \<Rightarrow> thought" where
  "example_thought i = processThought_spec (example_record i)"

subsection \<open>Failing requests\<close>

text \<open>
  A fetch of a feed page fails when the request function rejects, the response is not
  OK, its body cannot be parsed, or the parsed body holds no array of records.
\<close>

definition fetch_fails :: "fetch_data response \<Rightarrow> bool" where
  "fetch_fails resp =
     (case resp of
        Rejects e \<Rightarrow> True
      | Responds ok b \<Rightarrow>
          if ok then
            (case b of
               Unparsable e \<Rightarrow> True
             | Parsed data \<Rightarrow>
                 (case thoughtsArray_of data of Inl e \<Rightarrow> True | Inr rs \<Rightarrow> False))
          else True)"

text \<open>
  A call of \<open>addThought\<close> fails when the request function rejects, the body cannot be
  parsed, or the store's test \<open>response.ok && data.message && data._id\<close> is false.
\<close>

definition addThought_fails :: "payload response \<Rightarrow> bool" where
  "addThought_fails resp =
     (case resp of
        Rejects e \<Rightarrow> True
      | Responds ok b \<Rightarrow>
          (case b of
             Unparsable e \<Rightarrow> True
           | Parsed data \<Rightarrow>
               \<not> (ok \<and> truthy_string (p_message data) \<and> truthy_string (p_id data))))"

text \<open>
  The error with which a call of \<open>handleLike\<close> reaches its \<open>catch\<close> block, if
  any: the rejection of the request function, the error of parsing the body of an OK
  response, or the error the store raises on a response that is not OK.
\<close>

definition like_failure :: "payload response \<Rightarrow> js_error option" where
  "like_failure resp =
     (case resp of
        Rejects e \<Rightarrow> Some e
      | Responds ok b \<Rightarrow>
          if ok then (case b of Unparsable e \<Rightarrow> Some e | Parsed updatedThought \<Rightarrow> None)
          else Some ''Failed to update like status'')"

section \<open>Properties\<close>

subsection \<open>Evaluation of the primitives\<close>

lemma toString_1: "toString (Suc 0) = ''1''"
  by code_simp

lemma toString_PAGE_SIZE: "toString PAGE_SIZE = ''10''"
  by code_simp

subsection \<open>Division of doubles\<close>











lemma bit_length_bounds:
  "0 < n \<Longrightarrow> 2 ^ (bit_length n - 1) \<le> n \<and> n < 2 ^ bit_length n"
proof (induction n rule: bit_length.induct)
  case (1 n)
  show ?case
  proof (cases "n div 2 = 0")
    case True
    then have "n = 1" using "1.prems" by (simp add: div_eq_0_iff) 
    then show ?thesis by (simp add: bit_length.simps)
  next
    case False
    then have ih: "2 ^ (bit_length (n div 2) - 1) \<le> n div 2 \<and> n div 2 < 2 ^ bit_length (n div 2)"
      using "1.IH" "1.prems" by simp
    have bl: "bit_length n = Suc (bit_length (n div 2))"
      using "1.prems" by (subst bit_length.simps) simp
    have pos: "0 < bit_length (n div 2)"
      using False by (subst bit_length.simps) simp
    have "2 * 2 ^ (bit_length (n div 2) - 1) \<le> n" using ih by linarith
    moreover have "n < 2 * 2 ^ bit_length (n div 2)" using ih by linarith
    moreover have "2 * 2 ^ (bit_length (n div 2) - 1) = (2::nat) ^ bit_length (n div 2)"
      using pos by (simp add: power_eq_if)
    ultimately show ?thesis by (simp add: bl)
  qed
qed


lemma exponent_bounds:
  assumes "0 < n" "0 < d"
  shows "(0 \<le> exponent n d \<longrightarrow>
            d * 2 ^ nat (exponent n d) \<le> n \<and> n < 2 * (d * 2 ^ nat (exponent n d)))
       \<and> (exponent n d < 0 \<longrightarrow>
            d \<le> n * 2 ^ nat (- exponent n d) \<and> n * 2 ^ nat (- exponent n d) < 2 * d)"
proof -
  define bn where "bn = bit_length n"
  define bd where "bd = bit_length d"
  define hn :: nat where "hn = 2 ^ (bn - 1)"
  define hd :: nat where "hd = 2 ^ (bd - 1)"
  have n: "hn \<le> n" "n < 2 * hn" and bn: "0 < bn"
    using bit_length_bounds [OF assms(1)] assms(1)
    by (auto simp: bn_def hn_def power_eq_if bit_length.simps [of n])
  have d: "hd \<le> d" "d < 2 * hd" and bd: "0 < bd"
    using bit_length_bounds [OF assms(2)] assms(2)
    by (auto simp: bd_def hd_def power_eq_if bit_length.simps [of d])
  show ?thesis
  proof (cases "bd \<le> bn")
    case True
    define X :: nat where "X = 2 ^ (bn - bd)"
    have hX: "hn = hd * X"
      using True bd by (simp add: hn_def hd_def X_def flip: power_add)
    have X: "0 < X" by (simp add: X_def)
    show ?thesis
    proof (cases "d * X \<le> n")
      case le: True
      have e: "exponent n d = int (bn - bd)"
        using True le by (simp add: exponent_def bn_def bd_def X_def)
      have "n < 2 * (hd * X)" using n hX by simp
      also have "\<dots> \<le> 2 * (d * X)" using d by simp
      finally show ?thesis using le by (simp add: e X_def)
    next
      case gt: False
      have e: "exponent n d = int (bn - bd) - 1"
        using True gt by (simp add: exponent_def bn_def bd_def X_def)
      show ?thesis
      proof (cases "bn = bd")
        case eq: True
        then have "X = 1" by (simp add: X_def)
        then have "n < d" "d < 2 * n" using gt n d hX by simp_all
        then show ?thesis using eq by (simp add: e)
      next
        case False
        then have lt: "bd < bn" using True by simp
        define Y :: nat where "Y = 2 ^ (bn - bd - 1)"
        have XY: "X = 2 * Y"
          using lt by (simp add: X_def Y_def power_eq_if)
        have "d * Y < 2 * hd * Y" using d by (simp add: Y_def)
        also have "\<dots> = hn" by (simp add: hX XY)
        also have "\<dots> \<le> n" by (rule n)
        finally have "d * Y \<le> n" by simp
        moreover have "n < 2 * (d * Y)" using gt by (simp add: XY)
        moreover have "nat (int (bn - bd) - 1) = bn - bd - 1" by simp
        moreover have "0 \<le> int (bn - bd) - 1" using lt by simp
        ultimately show ?thesis by (simp add: e Y_def)
      qed
    qed
  next
    case False
    then have lt: "bn < bd" by simp
    define X :: nat where "X = 2 ^ (bd - bn)"
    have hX: "hd = hn * X"
      using lt bn by (simp add: hn_def hd_def X_def flip: power_add)
    show ?thesis
    proof (cases "d \<le> n * X")
      case le: True
      have e: "exponent n d = - int (bd - bn)"
        using lt le by (simp add: exponent_def bn_def bd_def X_def)
      have "n * X < 2 * hn * X" using n by (simp add: X_def)
      also have "\<dots> = 2 * hd" by (simp add: hX)
      also have "\<dots> \<le> 2 * d" using d by simp
      finally have up: "n * X < 2 * d" .
      have neg: "exponent n d < 0" using lt by (simp add: e)
      have "nat (- exponent n d) = bd - bn" by (simp add: e)
      then show ?thesis using le up neg by (simp add: X_def)
    next
      case gt: False
      have e: "exponent n d = - int (bd - bn) - 1"
        using lt gt by (simp add: exponent_def bn_def bd_def X_def)
      have neg: "exponent n d < 0" by (simp add: e)
      have ne: "nat (- exponent n d) = Suc (bd - bn)" by (simp add: e)
      have "d < 2 * hd" by (rule d)
      also have "\<dots> = 2 * hn * X" by (simp add: hX)
      also have "\<dots> \<le> 2 * n * X" using n by simp
      finally have "d \<le> n * (2 * X)" by simp
      moreover have "n * (2 * X) < 2 * d" using gt by simp
      ultimately show ?thesis using neg by (simp add: ne X_def)
    qed
  qed
qed

text \<open>
  Above \<open>2 ^ 53\<close> the rounding of the quotient shows: \<open>2 ^ 60 / 10\<close> is rounded to
  a multiple of 16.
\<close>

lemma Math_ceil_double_div_large:
  "Math_ceil (double_div (2 ^ 60) PAGE_SIZE) = 115292150460684704"
  by (simp add: double_div_def exponent_def round_half_even_def Math_ceil_def
      bit_length.simps Let_def PAGE_SIZE_def)

subsection \<open>The thought filter\<close>

text \<open>
  C1 (as amended). The store compares the filter with the string \<open>my\<close>. Calling
  \<open>setThoughtFilter("my")\<close> sets \<open>thoughtFilter\<close>, resets \<open>currentPage\<close> to 1,
  clears \<open>thoughts\<close>, and the fetch it triggers goes to the owner-scoped endpoint
  \<open>/users/me/thoughts\<close> through \<open>authenticatedFetch\<close>.
\<close>

theorem setThoughtFilter_my:
  "thoughtFilter (fst (setThoughtFilter I ''my'' st)) = ''my''
   \<and> currentPage (fst (setThoughtFilter I ''my'' st)) = 1
   \<and> thoughts (fst (setThoughtFilter I ''my'' st)) = []
   \<and> req_function (snd (setThoughtFilter I ''my'' st)) = authenticatedFetch
   \<and> req_endpoint (snd (setThoughtFilter I ''my'' st))
       = API_URL I @ ''/users/me/thoughts?page=1&limit=10''"
  by (simp add: setThoughtFilter_def fetchThoughts_begin_def fetchThoughts_request_def
      toString_1 toString_PAGE_SIZE)

theorem setThoughtFilter_my_witness:
  "thoughtFilter (fst (setThoughtFilter example_imported ''my'' initial_state)) = ''my''
   \<and> req_function (snd (setThoughtFilter example_imported ''my'' initial_state))
       = authenticatedFetch
   \<and> req_endpoint (snd (setThoughtFilter example_imported ''my'' initial_state))
       = ''http://localhost:8080/users/me/thoughts?page=1&limit=10''"
  using setThoughtFilter_my [of example_imported initial_state]
  by (simp add: example_imported_def spec_imported_def)

text \<open>
  With the filter \<open>mine\<close> the fetch goes to the public endpoint \<open>/thoughts\<close> through the
  plain \<open>fetch\<close>.
\<close>

theorem setThoughtFilter_mine_counterexample:
  "req_function (snd (setThoughtFilter example_imported ''mine'' initial_state)) = fetch
   \<and> req_endpoint (snd (setThoughtFilter example_imported ''mine'' initial_state))
       = ''http://localhost:8080/thoughts?page=1&limit=10''
   \<and> req_function (snd (setThoughtFilter example_imported ''mine'' initial_state))
       \<noteq> authenticatedFetch"
  by (simp add: setThoughtFilter_def fetchThoughts_begin_def fetchThoughts_request_def
      toString_1 toString_PAGE_SIZE example_imported_def spec_imported_def)

subsection \<open>Fetching a page\<close>

lemma fetchThoughts_try_fails:
  "fetch_fails resp \<Longrightarrow> \<exists>e. fetchThoughts_try I page a resp st = Inl e"
  by (auto simp: fetch_fails_def fetchThoughts_try_def
      split: response.splits body.splits sum.splits if_splits)

lemma fetchThoughts_resume_loading:
  "loading (fst (fetchThoughts_resume I page a resp st)) = False"
  by (simp add: fetchThoughts_resume_def Let_def)

lemma fetchThoughts_resume_fails:
  assumes "fetch_fails resp"
  shows "fst (fetchThoughts_resume I page a resp st)
         = st\<lparr>error := ''Could not load happy thoughts. Please try again later.'',
               loading := False\<rparr>"
proof -
  obtain e where "fetchThoughts_try I page a resp st = Inl e"
    using fetchThoughts_try_fails [OF assms] by blast
  then show ?thesis
    by (simp add: fetchThoughts_resume_def)
qed

lemma fetchThoughts_resume_ok:
  assumes "thoughtsArray_of data = Inr rs"
  shows "fst (fetchThoughts_resume I page a (Responds True (Parsed data)) st)
         = st\<lparr>thoughts := (if a then thoughts st @ map (processThought I) rs
                             else map (processThought I) rs),
               currentPage := or_number (pg_currentPage (data_pagination data)) page,
               totalPages := or_number (pg_totalPages (data_pagination data))
                  (Math_ceil (double_div (or_number (data_total data) (length rs)) PAGE_SIZE)),
               totalThoughts := or_number (data_total data) (length rs),
               hasMore := (case pg_hasNextPage (data_pagination data) of
                             Some h \<Rightarrow> h | None \<Rightarrow> length rs = PAGE_SIZE),
               loading := False\<rparr>"
  using assms
  by (simp add: fetchThoughts_resume_def fetchThoughts_try_def Let_def split: option.splits)

text \<open>
  C6. A call of \<open>fetchThoughts\<close> whose request fails sets the fixed message
  \<open>Could not load happy thoughts. Please try again later.\<close> and leaves \<open>thoughts\<close> as
  they were before the call; and after every call, failed or not, \<open>loading\<close> is false.
\<close>

theorem fetchThoughts_failure:
  "(fetch_fails resp \<longrightarrow>
      error (fst (fetchThoughts I page a resp st))
        = ''Could not load happy thoughts. Please try again later.''
      \<and> thoughts (fst (fetchThoughts I page a resp st)) = thoughts st)
   \<and> loading (fst (fetchThoughts I page a resp st)) = False"
  by (simp add: fetchThoughts_def fetchThoughts_resume_loading fetchThoughts_resume_fails
      fetchThoughts_begin_def Let_def)

theorem fetchThoughts_failure_witness:
  "fetch_fails (Responds False (Parsed (BareArray [example_record ''b''])))
   \<and> error (fst (fetchThoughts example_imported 2 True
         (Responds False (Parsed (BareArray [example_record ''b''])))
         (initial_state\<lparr>thoughts := [example_thought ''a'']\<rparr>)))
       = ''Could not load happy thoughts. Please try again later.''
   \<and> thoughts (fst (fetchThoughts example_imported 2 True
         (Responds False (Parsed (BareArray [example_record ''b''])))
         (initial_state\<lparr>thoughts := [example_thought ''a'']\<rparr>)))
       = [example_thought ''a'']
   \<and> \<not> loading (fst (fetchThoughts example_imported 2 True
         (Responds False (Parsed (BareArray [example_record ''b''])))
         (initial_state\<lparr>thoughts := [example_thought ''a'']\<rparr>)))"
  using fetchThoughts_failure [of "Responds False (Parsed (BareArray [example_record ''b'']))"
      example_imported 2 True "initial_state\<lparr>thoughts := [example_thought ''a'']\<rparr>"]
  by (simp add: fetch_fails_def)



lemma thoughtsArray_of_BareArray: "thoughtsArray_of (BareArray rs) = Inr rs"
  by (simp add: thoughtsArray_of_def)

text \<open>
  Two fetches in a row whose pages both hold the record with id \<open>a\<close>, the second one
  appending: the id then occurs twice in \<open>thoughts\<close>.
\<close>

theorem fetchThoughts_append_counterexample:
  "\<not> distinct (map thought_id (thoughts (fst
       (fetchThoughts example_imported 2 True
          (Responds True (Parsed (BareArray [example_record ''a''])))
          (fst (fetchThoughts example_imported 1 False
                  (Responds True (Parsed (BareArray [example_record ''a''])))
                  initial_state))))))"
  by (simp add: fetchThoughts_def fetchThoughts_begin_def Let_def
      fetchThoughts_resume_ok [OF thoughtsArray_of_BareArray]
      example_imported_def spec_imported_def)

text \<open>
  C2 (as amended). A successful \<open>fetchThoughts(p, append=true)\<close> sets \<open>thoughts\<close> to
  the existing list followed by the processed page, as it is. Each id then occurs at most
  once exactly when that holds of the existing list and of the page and no id of the page
  is already present.
\<close>

theorem fetchThoughts_append:
  assumes "thoughtsArray_of data = Inr rs"
    and "st' = fst (fetchThoughts I page True (Responds True (Parsed data)) st)"
  shows "thoughts st' = thoughts st @ map (processThought I) rs
     \<and> (distinct (map thought_id (thoughts st')) \<longleftrightarrow>
          distinct (map thought_id (thoughts st))
          \<and> distinct (map thought_id (map (processThought I) rs))
          \<and> thought_id ` set (thoughts st) \<inter> thought_id ` set (map (processThought I) rs) = {})"
  unfolding assms(2) fetchThoughts_def fetchThoughts_resume_ok [OF assms(1)]
  by (simp add: fetchThoughts_begin_def Let_def image_image)

theorem fetchThoughts_append_witness:
  "thoughts (fst (fetchThoughts example_imported 2 True
       (Responds True (Parsed (BareArray [example_record ''b''])))
       (initial_state\<lparr>thoughts := [example_thought ''a'']\<rparr>)))
     = [example_thought ''a'', example_thought ''b'']
   \<and> distinct (map thought_id (thoughts (fst (fetchThoughts example_imported 2 True
       (Responds True (Parsed (BareArray [example_record ''b''])))
       (initial_state\<lparr>thoughts := [example_thought ''a'']\<rparr>)))))"
  using fetchThoughts_append [of "BareArray [example_record ''b'']" "[example_record ''b'']" _
      example_imported 2 "initial_state\<lparr>thoughts := [example_thought ''a'']\<rparr>",
      OF _ refl]
  by (simp add: thoughtsArray_of_def example_imported_def spec_imported_def
      example_thought_def example_record_def processThought_spec_def)

subsection \<open>The loading flag\<close>

text \<open>
  While the request of \<open>handleLike\<close> is in flight, \<open>loading\<close> is false: the action
  has issued its request and suspended without writing the flag.
\<close>


theorem handleLike_loading_counterexample:
  "handleLike_begin example_imported (Some ''a'')
       (initial_state\<lparr>thoughts := [example_thought ''a'']\<rparr>)
     = (initial_state\<lparr>thoughts := [createOptimisticLikeUpdate_spec (example_thought ''a'')]\<rparr>,
        Awaits \<lparr>req_function = authenticatedFetch,
                req_endpoint = ''http://localhost:8080/thoughts/a/like'',
                req_method = POST, req_message = None\<rparr>
          (example_thought ''a''))
   \<and> \<not> loading (fst (handleLike_begin example_imported (Some ''a'')
           (initial_state\<lparr>thoughts := [example_thought ''a'']\<rparr>)))"
  by (simp add: handleLike_begin_def example_imported_def spec_imported_def
      example_thought_def example_record_def processThought_spec_def initial_state_def
      createOptimisticUpdater_spec_def id_text_def)

text \<open>
  C3 (as amended). \<open>fetchThoughts\<close> and \<open>addThought\<close> set \<open>loading\<close> to true
  before they suspend at the request and set it to false when they have resumed and
  finished. \<open>handleLike\<close>, \<open>updateThought\<close> and \<open>deleteThought\<close> do not write
  \<open>loading\<close>, neither before their request nor after it.
\<close>

theorem loading_flag:
  "loading (fst (fetchThoughts_begin I page st))
   \<and> loading (fst (addThought_begin I msg st))
   \<and> \<not> loading (fst (fetchThoughts_resume I page a fresp st))
   \<and> \<not> loading (fst (fst (addThought_resume I opt onError presp (st, w))))
   \<and> loading (fst (handleLike_begin I thoughtId st)) = loading st
   \<and> loading (fst (handleLike_resume I thoughtId cur presp st)) = loading st
   \<and> loading (fst (updateThought_begin I thoughtId msg st)) = loading st
   \<and> loading (fst (updateThought_resume I thoughtId cur presp st)) = loading st
   \<and> loading (fst (deleteThought_begin I thoughtId st)) = loading st
   \<and> loading (fst (deleteThought_resume I cur presp st)) = loading st"
  by (simp add: fetchThoughts_begin_def addThought_begin_def fetchThoughts_resume_loading
      addThought_resume_def handleLike_begin_def handleLike_resume_def handleLike_try_def
      updateThought_begin_def updateThought_resume_def updateThought_try_def
      deleteThought_begin_def deleteThought_resume_def deleteThought_try_def Let_def
      split: option.splits sum.splits response.splits body.splits prod.splits)

theorem loading_flag_witness:
  "loading (fst (fetchThoughts_begin example_imported 1
       (initial_state\<lparr>thoughts := [example_thought ''a'']\<rparr>)))
   \<and> loading (fst (addThought_begin example_imported ''hi''
       (initial_state\<lparr>thoughts := [example_thought ''a'']\<rparr>)))
   \<and> \<not> loading (fst (fetchThoughts_resume example_imported 1 False (Rejects ''offline'')
       (initial_state\<lparr>thoughts := [example_thought ''a'']\<rparr>)))
   \<and> \<not> loading (fst (updateThought_begin example_imported (Some ''a'') ''hi''
       (initial_state\<lparr>thoughts := [example_thought ''a'']\<rparr>)))
   \<and> \<not> loading (fst (deleteThought_resume example_imported (example_thought ''a'')
       (Rejects ''offline'') (initial_state\<lparr>thoughts := [example_thought ''a'']\<rparr>)))"
  using loading_flag [where I = example_imported and page = 1 and msg = "''hi''"
      and st = "initial_state\<lparr>thoughts := [example_thought ''a'']\<rparr>"
      and a = False and fresp = "Rejects ''offline''" and presp = "Rejects ''offline''"
      and opt = "example_thought ''a''" and cur = "example_thought ''a''"
      and onError = "None :: (string \<Rightarrow> unit \<Rightarrow> unit) option" and w = "()"
      and thoughtId = "Some ''a''"]
  by (simp add: initial_state_def)

subsection \<open>Adding a thought\<close>

lemma removeById_fresh:
  "i \<notin> thought_id ` set ts \<Longrightarrow> createRemoveUpdater_spec i ts = ts"
  by (induction ts) (auto simp: createRemoveUpdater_spec_def)

lemma addThought_resume_fails:
  assumes "addThought_fails resp"
  shows "thoughts (fst (fst (addThought_resume I opt onError resp (st, w))))
         = createRemoveUpdater I (thought_id opt) (thoughts st)"
  using assms
  by (auto simp: addThought_fails_def addThought_resume_def addThought_try_def
      addThought_catch_def Let_def split: response.splits body.splits option.splits)

text \<open>
  C4. \<open>addThought\<close> puts the optimistic placeholder at the head of \<open>thoughts\<close>
  before the request, and when the request fails (transport error, unparsable body,
  server rejection or malformed payload) the list after the call is the list before the
  call. The helpers are those of the specification; the temporary id is one that no
  thought of the list carries.
\<close>

theorem addThought_failure:
  assumes "Some tmp \<notin> thought_id ` set (thoughts st)"
    and "addThought_fails resp"
    and "I = spec_imported api tmp now reinsert"
  shows "thoughts (fst (addThought_begin I msg st))
           = createOptimisticThought_spec tmp now msg # thoughts st
     \<and> thoughts (fst (fst (addThought I msg onError resp (st, w)))) = thoughts st"
proof -
  have "thoughts (fst (fst (addThought I msg onError resp (st, w))))
        = createRemoveUpdater_spec (Some tmp) (createOptimisticThought_spec tmp now msg # thoughts st)"
    by (simp add: addThought_def addThought_begin_def Let_def addThought_resume_fails [OF assms(2)]
        assms(3) spec_imported_def createOptimisticThought_spec_def)
  also have "\<dots> = createRemoveUpdater_spec (Some tmp) (thoughts st)"
    by (simp add: createRemoveUpdater_spec_def createOptimisticThought_spec_def)
  also have "\<dots> = thoughts st"
    by (rule removeById_fresh [OF assms(1)])
  finally show ?thesis
    by (simp add: addThought_begin_def Let_def assms(3) spec_imported_def)
qed

theorem addThought_failure_witness:
  "thoughts (fst (addThought_begin example_imported ''hi''
       (initial_state\<lparr>thoughts := [example_thought ''a'']\<rparr>)))
     = [createOptimisticThought_spec ''temp-1'' ''2025-01-01T00:00:00Z'' ''hi'',
        example_thought ''a'']
   \<and> thoughts (fst (fst (addThought example_imported ''hi'' (Some (\<lambda>m w. m # w))
       (Responds False (Parsed (example_record ''x'')))
       (initial_state\<lparr>thoughts := [example_thought ''a'']\<rparr>, []))))
     = [example_thought ''a'']"
  using addThought_failure [of "''temp-1''" "initial_state\<lparr>thoughts := [example_thought ''a'']\<rparr>"
      "Responds False (Parsed (example_record ''x''))" example_imported
      "''http://localhost:8080''" "''2025-01-01T00:00:00Z''" "\<lambda>ts t. t # ts" "''hi''"
      "Some (\<lambda>m w. m # w)" "[]"]
  by (simp add: addThought_fails_def example_imported_def example_thought_def
      example_record_def processThought_spec_def)

text \<open>
  C10. When the server rejects \<open>addThought\<close> (the response is not OK, or the payload
  lacks \<open>message\<close> or \<open>_id\<close>) and no \<open>onError\<close> callback was given, the call
  ends with the placeholder removed, \<open>error\<close> empty and \<open>loading\<close> false, the
  caller's state untouched and nothing returned: the extracted message appears nowhere.
\<close>

theorem addThought_rejected_without_onError:
  assumes "\<not> (ok \<and> truthy_string (p_message data) \<and> truthy_string (p_id data))"
  shows "addThought I msg None (Responds ok (Parsed data)) (st, w)
         = ((st\<lparr>thoughts := createRemoveUpdater I (thought_id (createOptimisticThought I msg))
                               (createOptimisticThought I msg # thoughts st),
                 loading := False, error := []\<rparr>, w), Returns ())"
  using assms
  by (auto simp: addThought_def addThought_begin_def addThought_resume_def addThought_try_def
      Let_def)

theorem addThought_rejected_without_onError_witness:
  "addThought example_imported ''hi'' None
       (Responds False (Parsed ((example_record ''x'')\<lparr>p_error := Some ''Message too short''\<rparr>)))
       (initial_state\<lparr>thoughts := [example_thought ''a'']\<rparr>, [] :: string list)
     = ((initial_state\<lparr>thoughts := [example_thought ''a'']\<rparr>, []), Returns ())"
  using addThought_rejected_without_onError [of False
      "(example_record ''x'')\<lparr>p_error := Some ''Message too short''\<rparr>"
      example_imported "''hi''" "initial_state\<lparr>thoughts := [example_thought ''a'']\<rparr>"
      "[] :: string list"]
  by (simp add: example_imported_def spec_imported_def createRemoveUpdater_spec_def
      createOptimisticThought_spec_def example_thought_def example_record_def
      processThought_spec_def initial_state_def)


subsection \<open>Liking a thought\<close>

lemma find_Some_mem: "find P xs = Some x \<Longrightarrow> x \<in> set xs \<and> P x"
  by (induction xs) (auto split: if_splits)

lemma updateById_twice:
  "thought_id new = i \<Longrightarrow>
   createOptimisticUpdater_spec i (\<lambda>_. old) (createOptimisticUpdater_spec i (\<lambda>_. new) ts)
   = createOptimisticUpdater_spec i (\<lambda>_. old) ts"
  by (induction ts) (auto simp: createOptimisticUpdater_spec_def)

lemma updateById_find:
  "find (\<lambda>t. thought_id t = i) ts = Some cur \<Longrightarrow>
   find (\<lambda>t. thought_id t = i) (createOptimisticUpdater_spec i (\<lambda>_. cur) ts) = Some cur"
  by (induction ts) (auto simp: createOptimisticUpdater_spec_def split: if_splits)

lemma updateById_distinct:
  assumes "find (\<lambda>t. thought_id t = i) ts = Some cur"
    and "distinct (map thought_id ts)"
  shows "createOptimisticUpdater_spec i (\<lambda>_. cur) ts = ts"
proof -
  have cur: "cur \<in> set ts" "thought_id cur = i"
    using find_Some_mem [OF assms(1)] by simp_all
  have inj: "inj_on thought_id (set ts)"
    using assms(2) by (simp add: distinct_map)
  have "(if thought_id t = i then cur else t) = t" if "t \<in> set ts" for t
    using that cur inj by (auto dest: inj_onD)
  then show ?thesis
    unfolding createOptimisticUpdater_spec_def by (simp add: map_idI)
qed

lemma handleLike_try_fails:
  "like_failure resp = Some e \<Longrightarrow> handleLike_try I resp st = Inl e"
  by (auto simp: like_failure_def handleLike_try_def Let_def
      split: response.splits body.splits if_splits)

lemma fetchThoughts_returns: "snd (fetchThoughts I page a resp st) = Returns ()"
  by (simp add: fetchThoughts_def fetchThoughts_resume_def Let_def)

lemma addThought_returns: "snd (addThought I msg onError resp sw) = Returns ()"
  by (simp add: addThought_def addThought_resume_def Let_def split: prod.splits)

lemma updateThought_returns: "\<exists>r. snd (updateThought I thoughtId msg resp st) = Returns r"
  by (auto simp: updateThought_def updateThought_begin_def updateThought_resume_def Let_def
      split: prod.splits option.splits started.splits sum.splits)

lemma deleteThought_returns: "\<exists>r. snd (deleteThought I thoughtId resp st) = Returns r"
  by (auto simp: deleteThought_def deleteThought_begin_def deleteThought_resume_def Let_def
      split: prod.splits option.splits started.splits sum.splits)

text \<open>
  C5. For a thought present in the list, a call of \<open>handleLike\<close> whose request
  fails puts the snapshot taken before the toggle back (the list is as before the call
  when its ids are unique), sets \<open>error\<close> and raises the failure to the caller. No
  call of \<open>fetchThoughts\<close>, \<open>addThought\<close>, \<open>updateThought\<close> or
  \<open>deleteThought\<close> raises an error to its caller. The helpers are those of the
  specification.
\<close>

theorem handleLike_failure:
  assumes "find (\<lambda>t. thought_id t = thoughtId) (thoughts st) = Some cur"
    and "like_failure resp = Some e"
    and "I = spec_imported api tmp now reinsert"
    and "st' = fst (handleLike I thoughtId resp st)"
  shows "find (\<lambda>t. thought_id t = thoughtId) (thoughts st') = Some cur
     \<and> thoughts st' = map (\<lambda>t. if thought_id t = thoughtId then cur else t) (thoughts st)
     \<and> (distinct (map thought_id (thoughts st)) \<longrightarrow> thoughts st' = thoughts st)
     \<and> error st' = (if e = ''Authentication required'' then ''Please log in to like thoughts.''
                     else ''Could not like the thought. Please try again.'')
     \<and> snd (handleLike I thoughtId resp st) = Throws e
     \<and> (\<forall>x. snd (fetchThoughts J page a fresp s) \<noteq> Throws x)
     \<and> (\<forall>x. snd (addThought J msg onError presp (s, w)) \<noteq> Throws x)
     \<and> (\<forall>x. snd (updateThought J i msg presp s) \<noteq> Throws x)
     \<and> (\<forall>x. snd (deleteThought J i presp s) \<noteq> Throws x)"
proof -
  have cur: "thought_id cur = thoughtId"
    using find_Some_mem [OF assms(1)] by simp
  have run: "handleLike I thoughtId resp st
      = (st\<lparr>thoughts := createOptimisticUpdater_spec thoughtId (\<lambda>_. cur) (thoughts st),
             error := handleApiError_spec e ''Could not like the thought. Please try again.''
                        ''Please log in to like thoughts.''\<rparr>, Throws e)"
    using cur
    by (simp add: handleLike_def handleLike_begin_def handleLike_resume_def Let_def assms(1)
        handleLike_try_fails [OF assms(2)] assms(3) spec_imported_def updateById_twice
        createOptimisticLikeUpdate_spec_def)
  have others: "(\<forall>x. snd (fetchThoughts J page a fresp s) \<noteq> Throws x)
     \<and> (\<forall>x. snd (addThought J msg onError presp (s, w)) \<noteq> Throws x)
     \<and> (\<forall>x. snd (updateThought J i msg presp s) \<noteq> Throws x)
     \<and> (\<forall>x. snd (deleteThought J i presp s) \<noteq> Throws x)"
    using updateThought_returns [of J i msg presp s] deleteThought_returns [of J i presp s]
    by (auto simp: fetchThoughts_returns addThought_returns)
  show ?thesis
    unfolding assms(4) run
    using others updateById_find [OF assms(1)] updateById_distinct [OF assms(1)]
    by (simp add: createOptimisticUpdater_spec_def handleApiError_spec_def)
qed

theorem handleLike_failure_witness:
  "thoughts (fst (handleLike example_imported (Some ''a'') (Responds False (Unparsable ''x''))
       (initial_state\<lparr>thoughts := [example_thought ''a'', example_thought ''b'']\<rparr>)))
     = [example_thought ''a'', example_thought ''b'']
   \<and> error (fst (handleLike example_imported (Some ''a'') (Responds False (Unparsable ''x''))
       (initial_state\<lparr>thoughts := [example_thought ''a'', example_thought ''b'']\<rparr>)))
     = ''Could not like the thought. Please try again.''
   \<and> snd (handleLike example_imported (Some ''a'') (Responds False (Unparsable ''x''))
       (initial_state\<lparr>thoughts := [example_thought ''a'', example_thought ''b'']\<rparr>))
     = Throws ''Failed to update like status''"
proof -
  have present: "find (\<lambda>t. thought_id t = Some ''a'')
      (thoughts (initial_state\<lparr>thoughts := [example_thought ''a'', example_thought ''b'']\<rparr>))
      = Some (example_thought ''a'')"
    by (simp add: example_thought_def example_record_def processThought_spec_def)
  have fails: "like_failure (Responds False (Unparsable ''x''))
      = Some ''Failed to update like status''"
    by (simp add: like_failure_def)
  show ?thesis
    using handleLike_failure [OF present fails example_imported_def refl,
        where J = example_imported and page = 1 and a = False and fresp = "Rejects ''x''"
          and s = initial_state and msg = "''hi''" and presp = "Rejects ''x''"
          and onError = "None :: (string \<Rightarrow> unit \<Rightarrow> unit) option" and w = "()"
          and i = None]
    by (simp add: example_thought_def example_record_def processThought_spec_def)
qed

subsection \<open>Updating and deleting a thought\<close>

lemma find_absent:
  "i \<notin> thought_id ` set ts \<Longrightarrow> find (\<lambda>t. thought_id t = i) ts = None"
  by (induction ts) auto

text \<open>
  C8. For an id that no thought of the list carries, \<open>updateThought\<close> and
  \<open>deleteThought\<close> finish in their synchronous part, without a request, with the
  result \<open>{success: false, error: 'Thought not found'}\<close> and the state unchanged.
\<close>

theorem thought_not_found:
  assumes "thoughtId \<notin> thought_id ` set (thoughts st)"
  shows "updateThought_begin I thoughtId msg st
           = (st, Done (Returns \<lparr>success = False, res_error = Some ''Thought not found'',
                                  res_thought = None\<rparr>))
     \<and> updateThought I thoughtId msg resp st
           = (st, Returns \<lparr>success = False, res_error = Some ''Thought not found'',
                            res_thought = None\<rparr>)
     \<and> deleteThought_begin I thoughtId st
           = (st, Done (Returns \<lparr>success = False, res_error = Some ''Thought not found'',
                                  res_thought = None\<rparr>))
     \<and> deleteThought I thoughtId resp st
           = (st, Returns \<lparr>success = False, res_error = Some ''Thought not found'',
                            res_thought = None\<rparr>)"
  by (simp add: updateThought_def updateThought_begin_def deleteThought_def
      deleteThought_begin_def find_absent [OF assms])

theorem thought_not_found_witness:
  "updateThought example_imported (Some ''z'') ''new'' (Responds True (Parsed (example_record ''z'')))
       (initial_state\<lparr>thoughts := [example_thought ''a'']\<rparr>)
     = (initial_state\<lparr>thoughts := [example_thought ''a'']\<rparr>,
        Returns \<lparr>success = False, res_error = Some ''Thought not found'', res_thought = None\<rparr>)
   \<and> deleteThought example_imported (Some ''z'') (Responds True (Parsed (example_record ''z'')))
       (initial_state\<lparr>thoughts := [example_thought ''a'']\<rparr>)
     = (initial_state\<lparr>thoughts := [example_thought ''a'']\<rparr>,
        Returns \<lparr>success = False, res_error = Some ''Thought not found'', res_thought = None\<rparr>)"
  using thought_not_found [of "Some ''z''" "initial_state\<lparr>thoughts := [example_thought ''a'']\<rparr>"
      example_imported "''new''" "Responds True (Parsed (example_record ''z''))"]
  by (simp add: example_thought_def example_record_def processThought_spec_def)

lemma updateThought_begin_frame:
  "fst (updateThought_begin I thoughtId msg st)
     = st\<lparr>thoughts := thoughts (fst (updateThought_begin I thoughtId msg st))\<rparr>"
  by (simp add: updateThought_begin_def Let_def split: option.splits)

lemma updateThought_resume_frame:
  "fst (updateThought_resume I thoughtId cur resp st)
     = st\<lparr>thoughts := thoughts (fst (updateThought_resume I thoughtId cur resp st))\<rparr>"
  by (simp add: updateThought_resume_def updateThought_try_def Let_def
      split: response.splits body.splits)

lemma deleteThought_begin_frame:
  "fst (deleteThought_begin I thoughtId st)
     = st\<lparr>thoughts := thoughts (fst (deleteThought_begin I thoughtId st))\<rparr>"
  by (simp add: deleteThought_begin_def Let_def split: option.splits)

lemma deleteThought_resume_frame:
  "fst (deleteThought_resume I cur resp st)
     = st\<lparr>thoughts := thoughts (fst (deleteThought_resume I cur resp st))\<rparr>"
  by (simp add: deleteThought_resume_def deleteThought_try_def Let_def
      split: response.splits body.splits)

lemma frame_trans:
  "s1 = (s0 :: feed_state)\<lparr>thoughts := a\<rparr> \<Longrightarrow> s2 = s1\<lparr>thoughts := b\<rparr> \<Longrightarrow> s2 = s0\<lparr>thoughts := thoughts s2\<rparr>"
  by simp

text \<open>
  C9. Whatever the response, \<open>updateThought\<close> and \<open>deleteThought\<close> leave
  \<open>error\<close> and every other field but \<open>thoughts\<close> as they were, and they return
  a result to the caller.
\<close>

theorem update_delete_frame:
  "fst (updateThought I thoughtId msg resp st)
     = st\<lparr>thoughts := thoughts (fst (updateThought I thoughtId msg resp st))\<rparr>
   \<and> error (fst (updateThought I thoughtId msg resp st)) = error st
   \<and> (\<exists>r. snd (updateThought I thoughtId msg resp st) = Returns r)
   \<and> fst (deleteThought I thoughtId resp st)
     = st\<lparr>thoughts := thoughts (fst (deleteThought I thoughtId resp st))\<rparr>
   \<and> error (fst (deleteThought I thoughtId resp st)) = error st
   \<and> (\<exists>r. snd (deleteThought I thoughtId resp st) = Returns r)"
proof -
  have u: "fst (updateThought I thoughtId msg resp st)
     = st\<lparr>thoughts := thoughts (fst (updateThought I thoughtId msg resp st))\<rparr>"
  proof (cases "updateThought_begin I thoughtId msg st")
    case (Pair st1 k)
    have f1: "st1 = st\<lparr>thoughts := thoughts st1\<rparr>"
      using updateThought_begin_frame [of I thoughtId msg st] Pair by simp
    show ?thesis
    proof (cases k)
      case (Done r)
      then show ?thesis using Pair f1 by (simp add: updateThought_def)
    next
      case (Awaits req cur)
      then show ?thesis
        using Pair frame_trans [OF f1 updateThought_resume_frame [of I thoughtId cur resp st1]]
        by (simp add: updateThought_def)
    qed
  qed
  have d: "fst (deleteThought I thoughtId resp st)
     = st\<lparr>thoughts := thoughts (fst (deleteThought I thoughtId resp st))\<rparr>"
  proof (cases "deleteThought_begin I thoughtId st")
    case (Pair st1 k)
    have f1: "st1 = st\<lparr>thoughts := thoughts st1\<rparr>"
      using deleteThought_begin_frame [of I thoughtId st] Pair by simp
    show ?thesis
    proof (cases k)
      case (Done r)
      then show ?thesis using Pair f1 by (simp add: deleteThought_def)
    next
      case (Awaits req cur)
      then show ?thesis
        using Pair frame_trans [OF f1 deleteThought_resume_frame [of I cur resp st1]]
        by (simp add: deleteThought_def)
    qed
  qed
  have ue: "error (fst (updateThought I thoughtId msg resp st)) = error st"
    by (subst u) simp
  have de: "error (fst (deleteThought I thoughtId resp st)) = error st"
    by (subst d) simp
  show ?thesis
    using u d ue de updateThought_returns [of I thoughtId msg resp st]
      deleteThought_returns [of I thoughtId resp st]
    by blast
qed

theorem update_delete_frame_witness:
  "error (fst (updateThought example_imported (Some ''a'') ''new''
       (Rejects ''Authentication required'')
       (initial_state\<lparr>thoughts := [example_thought ''a''], error := ''earlier''\<rparr>)))
     = ''earlier''
   \<and> error (fst (deleteThought example_imported (Some ''a'')
       (Responds False (Parsed (example_record ''a'')))
       (initial_state\<lparr>thoughts := [example_thought ''a''], error := ''earlier''\<rparr>)))
     = ''earlier''"
  using update_delete_frame [of example_imported "Some ''a''" "''new''"
      "Rejects ''Authentication required''"
      "initial_state\<lparr>thoughts := [example_thought ''a''], error := ''earlier''\<rparr>"]
    update_delete_frame [of example_imported "Some ''a''" "''new''"
      "Responds False (Parsed (example_record ''a''))"
      "initial_state\<lparr>thoughts := [example_thought ''a''], error := ''earlier''\<rparr>"]
  by simp


end
